theory Spec2Isabelle
  imports Main "HOL-Library.Word"
begin

section \<open>Data model\<close>

text \<open>
  The relayer keeps four tables. A table is the list of its rows in stored order.
  Gas amounts are the integers of the \<open>monthly_gas\<close> and \<open>gas_used\<close> columns;
  \<open>relayer_nonce\<close> is a text column (\<open>VARCHAR(100)\<close> in the transactions
  migration), so it is a string here as well.
\<close>

record universal_profile =
  address :: string
  created_at :: int

record quota =
  quota_id :: nat
  universal_profile_address :: string
  monthly_gas :: int
  gas_used :: int

record approved_quota =
  approved_quota_id :: nat
  approver_address :: string
  approved_address :: string
  approved_monthly_gas :: int
  approved_gas_used :: int

record transaction_row =
  transaction_id :: nat
  tx_universal_profile_address :: string
  nonce :: string
  signature :: string
  abi :: string
  channel_id :: int
  status :: string
  signer_address :: string
  relayer_nonce :: string
  relayer_address :: string
  estimated_gas :: int
  tx_gas_used :: int
  hash :: "string option"
  approved_quota_ref :: "nat option"

record store =
  universal_profiles :: "universal_profile list"
  quotas :: "quota list"
  approved_quotas :: "approved_quota list"
  transactions :: "transaction_row list"

text \<open>
  Everything the handlers throw or a query rejects with. \<open>TypeError\<close> is the
  JavaScript error of reading a property of \<open>null\<close>; \<open>QueryResultError\<close> is what
  \<open>oneOrNone\<close> rejects with when the query returns more than one row;
  \<open>DataException\<close> is the rejection of a value that does not fit its column (an
  integer out of range, a text too long), \<open>PrimaryKeyViolation\<close>, \<open>UniqueViolation\<close>
  and \<open>ForeignKeyViolation\<close> are the rejections of an insert by the primary key, by
  the constraint \<open>UNIQUE (nonce, channel_id, signer_address)\<close> and by a foreign key
  of the transactions table; \<open>EthersError\<close> is an error thrown by the ethers library
  or by the big-number library under it; \<open>Thrown\<close> is a thrown string.
\<close>

datatype error =
    ArgumentError string
  | NoGasError string
  | TypeError
  | QueryResultError
  | DataException
  | PrimaryKeyViolation
  | UniqueViolation
  | ForeignKeyViolation
  | EthersError string
  | Thrown string

section \<open>Queries\<close>

fun oneOrNone :: "'a list \<Rightarrow> error + 'a option" where
  "oneOrNone [] = Inr None"
| "oneOrNone [r] = Inr (Some r)"
| "oneOrNone (r # r' # rs) = Inl QueryResultError"

text \<open>\<^verbatim>\<open>SELECT * FROM quotas WHERE universal_profile_address = $1\<close>\<close>

definition select_quotas :: "store \<Rightarrow> string \<Rightarrow> quota list" where
  "select_quotas db a = filter (\<lambda>q. universal_profile_address q = a) (quotas db)"

text \<open>\<^verbatim>\<open>SELECT * FROM universal_profiles WHERE address = $1\<close>\<close>

definition select_universal_profiles :: "store \<Rightarrow> string \<Rightarrow> universal_profile list" where
  "select_universal_profiles db a = filter (\<lambda>u. address u = a) (universal_profiles db)"

text \<open>\<^verbatim>\<open>SELECT * FROM approved_quotas WHERE approved_address = $1\<close>\<close>

definition select_approved_quotas :: "store \<Rightarrow> string \<Rightarrow> approved_quota list" where
  "select_approved_quotas db a = filter (\<lambda>r. approved_address r = a) (approved_quotas db)"

section \<open>ensureRemainingQuota\<close>

text \<open>
  The loop over \<open>approvedQuotas\<close>. The variable \<open>quota\<close> enters the loop holding the
  profile's own row and is overwritten by each approver row that is loaded. Reading
  \<open>gas_used\<close> of a missing approver row throws, so the value left after the loop is
  never \<open>null\<close>.
\<close>

fun approvedQuotas_loop :: "store \<Rightarrow> int \<Rightarrow> approved_quota list \<Rightarrow> quota \<Rightarrow> error + quota" where
  "approvedQuotas_loop db estimatedGas [] quota = Inr quota"
| "approvedQuotas_loop db estimatedGas (a # rest) quota =
     (if approved_gas_used a + estimatedGas \<ge> approved_monthly_gas a
      then approvedQuotas_loop db estimatedGas rest quota
      else case oneOrNone (select_quotas db (approver_address a)) of
             Inl e \<Rightarrow> Inl e
           | Inr None \<Rightarrow> Inl TypeError
           | Inr (Some q) \<Rightarrow>
               if gas_used q + estimatedGas \<le> monthly_gas q then Inr q
               else approvedQuotas_loop db estimatedGas rest q)"

text \<open>
  \<open>new_id\<close> is the value the \<open>id\<close> column draws for an inserted row and \<open>now\<close> is
  \<open>new Date()\<close>. The queries run in a task, which is not a transaction: a rejection
  leaves the writes made before it.
\<close>

definition ensureRemainingQuota ::
  "nat \<Rightarrow> int \<Rightarrow> store \<Rightarrow> int \<Rightarrow> string \<Rightarrow> (error + quota) \<times> store" where
  "ensureRemainingQuota new_id now db estimatedGas addr =
     (case oneOrNone (select_quotas db addr) of
        Inl e \<Rightarrow> (Inl e, db)
      | Inr None \<Rightarrow>
          (case oneOrNone (select_universal_profiles db addr) of
             Inl e \<Rightarrow> (Inl e, db)
           | Inr up \<Rightarrow>
               let db1 = (if up = None
                          then db\<lparr>universal_profiles := universal_profiles db @
                                     [\<lparr>address = addr, created_at = now\<rparr>]\<rparr>
                          else db);
                   quota = \<lparr>quota_id = new_id, universal_profile_address = addr,
                            monthly_gas = 650000, gas_used = 0\<rparr>
               in (Inr quota, db1\<lparr>quotas := quotas db1 @ [quota]\<rparr>))
      | Inr (Some quota) \<Rightarrow>
          if gas_used quota + estimatedGas \<le> monthly_gas quota then (Inr quota, db)
          else
            let approvedQuotas = select_approved_quotas db addr in
            if length approvedQuotas = 0 then (Inl (NoGasError ''gas limit reached''), db)
            else
              (case approvedQuotas_loop db estimatedGas approvedQuotas quota of
                 Inl e \<Rightarrow> (Inl e, db)
               | Inr quota' \<Rightarrow>
                   if gas_used quota' + estimatedGas > monthly_gas quota'
                   then (Inl (NoGasError ''gas limit reached''), db)
                   else (Inr quota', db)))"


section \<open>createTransaction\<close>

text \<open>
  The callback of \<open>db.tx\<close> runs on the store; when it rejects, the transaction is
  rolled back and the store is the one before the call.
\<close>

definition tx :: "(store \<Rightarrow> (error + 'a) \<times> store) \<Rightarrow> store \<Rightarrow> (error + 'a) \<times> store" where
  "tx cb db = (case cb db of (Inl e, t) \<Rightarrow> (Inl e, db) | (Inr v, t) \<Rightarrow> (Inr v, t))"

text \<open>
  \<^verbatim>\<open>UPDATE quotas SET gas_used = gas_used + $1 WHERE id = $2\<close>. The migrations
  of \<open>quotas\<close> and \<open>approved_quotas\<close> are not among the sources; their gas columns
  hold integers of any size here.
\<close>

definition update_quotas :: "int \<Rightarrow> nat \<Rightarrow> store \<Rightarrow> store" where
  "update_quotas estimatedGas qid db =
     db\<lparr>quotas := map (\<lambda>q. if quota_id q = qid
                             then q\<lparr>gas_used := gas_used q + estimatedGas\<rparr> else q)
                      (quotas db)\<rparr>"

text \<open>
  \<^verbatim>\<open>UPDATE approved_quotas SET gas_used = gas_used + $1
  WHERE approved_address = $2 and approver_address = $3 RETURNING *\<close>
\<close>

definition approved_hit :: "string \<Rightarrow> string \<Rightarrow> approved_quota \<Rightarrow> bool" where
  "approved_hit approved approver r \<longleftrightarrow>
     approved_address r = approved \<and> approver_address r = approver"

definition approved_bump :: "int \<Rightarrow> approved_quota \<Rightarrow> approved_quota" where
  "approved_bump estimatedGas r = r\<lparr>approved_gas_used := approved_gas_used r + estimatedGas\<rparr>"

definition update_approved_quotas ::
  "int \<Rightarrow> string \<Rightarrow> string \<Rightarrow> store \<Rightarrow> approved_quota list \<times> store" where
  "update_approved_quotas estimatedGas approved approver db =
     (map (approved_bump estimatedGas) (filter (approved_hit approved approver) (approved_quotas db)),
      db\<lparr>approved_quotas :=
            map (\<lambda>r. if approved_hit approved approver r then approved_bump estimatedGas r else r)
              (approved_quotas db)\<rparr>)"

text \<open>
  The columns of the transactions table, as its migration declares them. An \<open>INT\<close>
  column takes the integers of 32 bits. A \<open>VARCHAR(n)\<close> column takes a text of at most
  \<open>n\<close> characters; of a longer text whose excess characters are all spaces it stores
  the first \<open>n\<close> characters; any other longer text is rejected. \<open>TEXT\<close> columns
  (\<open>signature\<close>, \<open>abi\<close>) take every text.
\<close>

definition fits_int :: "int \<Rightarrow> bool" where
  "fits_int v \<longleftrightarrow> - (2 ^ 31) \<le> v \<and> v < 2 ^ 31"

definition fits_varchar :: "nat \<Rightarrow> string \<Rightarrow> bool" where
  "fits_varchar n s \<longleftrightarrow> (\<forall>c \<in> set (drop n s). c = CHR '' '')"

text \<open>The row as the table stores it, when every value fits its column.\<close>

definition column_values :: "transaction_row \<Rightarrow> transaction_row option" where
  "column_values r =
     (if fits_int (int (transaction_id r)) \<and>
         fits_varchar 100 (tx_universal_profile_address r) \<and>
         fits_varchar 100 (nonce r) \<and>
         fits_int (channel_id r) \<and>
         fits_varchar 100 (status r) \<and>
         fits_varchar 100 (signer_address r) \<and>
         (case hash r of None \<Rightarrow> True | Some h \<Rightarrow> fits_varchar 1000 h) \<and>
         fits_varchar 100 (relayer_nonce r) \<and>
         fits_varchar 100 (relayer_address r) \<and>
         fits_int (estimated_gas r) \<and>
         fits_int (tx_gas_used r) \<and>
         (case approved_quota_ref r of None \<Rightarrow> True | Some i \<Rightarrow> fits_int (int i))
      then Some (r\<lparr>tx_universal_profile_address := take 100 (tx_universal_profile_address r),
                   nonce := take 100 (nonce r),
                   status := take 100 (status r),
                   signer_address := take 100 (signer_address r),
                   hash := map_option (take 1000) (hash r),
                   relayer_nonce := take 100 (relayer_nonce r),
                   relayer_address := take 100 (relayer_address r)\<rparr>)
      else None)"

text \<open>
  \<^verbatim>\<open>INSERT INTO transactions(...) VALUES(...) RETURNING *\<close> under the constraints
  of the table's migration: the values must fit their columns; then the primary key
  \<open>id\<close> and \<^verbatim>\<open>UNIQUE (nonce, channel_id, signer_address)\<close> are checked on the
  stored values, in this order; then the foreign keys from \<open>universal_profile_address\<close>
  to \<open>universal_profiles(address)\<close> and from \<open>approved_quota_id\<close>, when it is not
  null, to \<open>approved_quotas(id)\<close>. The statement returns the stored row. The two
  timestamp columns of the statement are not part of the model.
\<close>

definition same_authorization :: "transaction_row \<Rightarrow> transaction_row \<Rightarrow> bool" where
  "same_authorization r r' \<longleftrightarrow>
     nonce r = nonce r' \<and> channel_id r = channel_id r' \<and> signer_address r = signer_address r'"

definition references_hold :: "transaction_row \<Rightarrow> store \<Rightarrow> bool" where
  "references_hold v db \<longleftrightarrow>
     (\<exists>u \<in> set (universal_profiles db). address u = tx_universal_profile_address v) \<and>
     (case approved_quota_ref v of
        None \<Rightarrow> True
      | Some i \<Rightarrow> (\<exists>a \<in> set (approved_quotas db). approved_quota_id a = i))"

definition insert_transaction :: "transaction_row \<Rightarrow> store \<Rightarrow> (error + transaction_row) \<times> store" where
  "insert_transaction row db =
     (case column_values row of
        None \<Rightarrow> (Inl DataException, db)
      | Some v \<Rightarrow>
          if \<exists>r \<in> set (transactions db). transaction_id r = transaction_id v
          then (Inl PrimaryKeyViolation, db)
          else if \<exists>r \<in> set (transactions db). same_authorization r v
          then (Inl UniqueViolation, db)
          else if \<not> references_hold v db
          then (Inl ForeignKeyViolation, db)
          else (Inr v, db\<lparr>transactions := transactions db @ [v]\<rparr>))"

text \<open>The decimal text of a number, as it is written into a text column.\<close>

fun decimal :: "nat \<Rightarrow> string" where
  "decimal n =
     (if n < 10 then [''0123456789'' ! n]
      else decimal (n div 10) @ [''0123456789'' ! (n mod 10)])"

declare decimal.simps [simp del]

text \<open>
  \<open>wallet_address\<close> is \<open>wallet.address\<close> and \<open>new_id\<close> the id the inserted row
  draws. \<open>t.one\<close> resolves with the inserted row, so the test \<open>!transaction\<close> after
  the transaction never fires.
\<close>

definition createTransaction ::
  "nat \<Rightarrow> string \<Rightarrow> store \<Rightarrow> int \<Rightarrow> quota \<Rightarrow> string \<Rightarrow> string \<Rightarrow> string \<Rightarrow> string \<Rightarrow>
   int \<Rightarrow> string \<Rightarrow> nat \<Rightarrow> string option \<Rightarrow> (error + transaction_row) \<times> store" where
  "createTransaction new_id wallet_address db estimatedGas quota addr nonce' signature' abi'
       channelId signerAddress walletNonce hash' =
     tx (\<lambda>t.
          let t1 = update_quotas estimatedGas (quota_id quota) t;
              (rows, t2) = update_approved_quotas estimatedGas addr
                             (universal_profile_address quota) t1
          in case oneOrNone rows of
               Inl e \<Rightarrow> (Inl e, t2)
             | Inr approvedQuota \<Rightarrow>
                 insert_transaction
                   \<lparr>transaction_id = new_id,
                    tx_universal_profile_address = addr,
                    nonce = nonce',
                    signature = signature',
                    abi = abi',
                    channel_id = channelId,
                    status = ''PENDING'',
                    signer_address = signerAddress,
                    relayer_nonce = decimal walletNonce,
                    relayer_address = wallet_address,
                    estimated_gas = estimatedGas,
                    tx_gas_used = 0,
                    hash = hash',
                    approved_quota_ref = map_option approved_quota_id approvedQuota\<rparr>
                   t2)
        db"


section \<open>extractChannelId\<close>

text \<open>
  A \<open>BigNumber\<close> holds the hexadecimal text of an integer of any size.
  \<open>BigNumber.from\<close> accepts a string that is an optional minus sign followed by
  \<open>0x\<close> and hexadecimal digits, in either case of letters, or by decimal digits, and
  throws on any other string. After a prefix written \<open>0X\<close> the object it makes holds a
  text that is not a number (\<open>Malformed\<close>, with the sign of the string): the
  big-number library throws when that text is read. \<open>shr\<close> throws on a negative
  number, \<open>toNumber\<close> when the number does not fit into 53 bits.
\<close>

datatype BigNumber = BigNumber int | Malformed bool

definition hex_value :: "char \<Rightarrow> nat option" where
  "hex_value c =
     (let n = (of_char c :: nat) in
      if 48 \<le> n \<and> n \<le> 57 then Some (n - 48)
      else if 97 \<le> n \<and> n \<le> 102 then Some (n - 87)
      else if 65 \<le> n \<and> n \<le> 70 then Some (n - 55)
      else None)"

definition dec_value :: "char \<Rightarrow> nat option" where
  "dec_value c =
     (let n = (of_char c :: nat) in if 48 \<le> n \<and> n \<le> 57 then Some (n - 48) else None)"

fun radix_value :: "nat \<Rightarrow> (char \<Rightarrow> nat option) \<Rightarrow> nat \<Rightarrow> string \<Rightarrow> nat option" where
  "radix_value b dv acc [] = Some acc"
| "radix_value b dv acc (c # cs) =
     (case dv c of None \<Rightarrow> None | Some d \<Rightarrow> radix_value b dv (acc * b + d) cs)"

definition decimal_value :: "string \<Rightarrow> nat option" where
  "decimal_value s = (if s = [] then None else radix_value 10 dec_value 0 s)"

text \<open>
  The text after the sign, when it is \<open>0x\<close> or \<open>0X\<close> followed by at least one
  hexadecimal digit: whether the prefix is the lower-case one, and the value of the
  digits.
\<close>

definition hex_text :: "string \<Rightarrow> (bool \<times> nat) option" where
  "hex_text s =
     (case s of
        c0 # cx # digits \<Rightarrow>
          if c0 = CHR ''0'' \<and> (cx = CHR ''x'' \<or> cx = CHR ''X'') \<and> digits \<noteq> []
          then map_option (\<lambda>v. (cx = CHR ''x'', v)) (radix_value 16 hex_value 0 digits)
          else None
      | _ \<Rightarrow> None)"

definition with_sign :: "bool \<Rightarrow> nat \<Rightarrow> int" where
  "with_sign negative v = (if negative then - int v else int v)"

definition unsigned_from :: "bool \<Rightarrow> string \<Rightarrow> error + BigNumber" where
  "unsigned_from negative s =
     (case hex_text s of
        Some (lower, v) \<Rightarrow>
          if lower then Inr (BigNumber (with_sign negative v)) else Inr (Malformed negative)
      | None \<Rightarrow>
          (case decimal_value s of
             Some v \<Rightarrow> Inr (BigNumber (with_sign negative v))
           | None \<Rightarrow> Inl (EthersError ''invalid BigNumber string'')))"

definition BigNumber_from :: "string \<Rightarrow> error + BigNumber" where
  "BigNumber_from s =
     (case s of
        c # rest \<Rightarrow> if c = CHR ''-'' then unsigned_from True rest else unsigned_from False s
      | [] \<Rightarrow> Inl (EthersError ''invalid BigNumber string''))"

definition shr :: "BigNumber \<Rightarrow> nat \<Rightarrow> error + BigNumber" where
  "shr bn w =
     (case bn of
        BigNumber v \<Rightarrow>
          if v < 0 then Inl (EthersError ''negative-width'')
          else Inr (BigNumber (drop_bit w v))
      | Malformed negative \<Rightarrow>
          if negative then Inl (EthersError ''negative-width'')
          else Inl (EthersError ''Invalid character''))"

definition toNumber :: "BigNumber \<Rightarrow> error + int" where
  "toNumber bn =
     (case bn of
        BigNumber v \<Rightarrow> if \<bar>v\<bar> < 2 ^ 53 then Inr v else Inl (EthersError ''overflow'')
      | Malformed negative \<Rightarrow> Inl (EthersError ''overflow''))"

definition extractChannelId :: "string \<Rightarrow> error + int" where
  "extractChannelId nonce' =
     (case BigNumber_from nonce' of
        Inl e \<Rightarrow> Inl e
      | Inr bn \<Rightarrow> (case shr bn 128 of Inl e \<Rightarrow> Inl e | Inr b \<Rightarrow> toNumber b))"

section \<open>The relayer nonce of the first version of execute\<close>

text \<open>
  \<^verbatim>\<open>SELECT * FROM transactions WHERE relayer_address = $1 AND status = 'PENDING'
  ORDER BY relayer_nonce DESC LIMIT 1\<close>.
  The column \<open>relayer_nonce\<close> is text, so the rows are ordered as strings:
  character by character, a proper prefix first. Among rows with equal text the
  earliest stored one is taken.
\<close>

fun text_le :: "string \<Rightarrow> string \<Rightarrow> bool" where
  "text_le [] t = True"
| "text_le (c # cs) [] = False"
| "text_le (c # cs) (d # ds) =
     ((of_char c :: nat) < of_char d \<or> (c = d \<and> text_le cs ds))"

fun order_by_relayer_nonce_desc_limit_1 :: "transaction_row list \<Rightarrow> transaction_row option" where
  "order_by_relayer_nonce_desc_limit_1 [] = None"
| "order_by_relayer_nonce_desc_limit_1 (r # rs) =
     (case order_by_relayer_nonce_desc_limit_1 rs of
        None \<Rightarrow> Some r
      | Some m \<Rightarrow> if text_le (relayer_nonce m) (relayer_nonce r) then Some r else Some m)"

definition pendingWalletTransaction :: "store \<Rightarrow> string \<Rightarrow> transaction_row option" where
  "pendingWalletTransaction db wallet_addr =
     order_by_relayer_nonce_desc_limit_1
       (filter (\<lambda>r. relayer_address r = wallet_addr \<and> status r = ''PENDING'') (transactions db))"

text \<open>
  \<open>Number\<close> of a string of decimal digits, which is what the insert writes into the
  column; the empty string converts to 0. \<open>None\<close> is \<open>NaN\<close>, the result taken here
  for every other text.
\<close>

definition Number :: "string \<Rightarrow> nat option" where
  "Number s = radix_value 10 dec_value 0 s"

text \<open>\<open>getTransactionCount\<close> is the result of \<open>wallet.getTransactionCount()\<close>.\<close>

definition walletNonce :: "nat \<Rightarrow> store \<Rightarrow> string \<Rightarrow> nat option" where
  "walletNonce getTransactionCount db wallet_addr =
     (case pendingWalletTransaction db wallet_addr of
        Some p \<Rightarrow> map_option (\<lambda>n. n + 1) (Number (relayer_nonce p))
      | None \<Rightarrow> Some getTransactionCount)"

section \<open>The collaborators of the handlers\<close>

text \<open>
  The chain services, the permission check and the clock are outside the handlers; a
  handler is a function of them. \<open>date_now\<close> is \<open>new Date().getTime()\<close>,
  \<open>new_quota_id\<close> and \<open>new_transaction_id\<close> are the ids drawn by inserted rows,
  \<open>firstOfNextMonth\<close> is the reset date computed from the calendar. A key manager is
  known by its address. \<open>estimateGas\<close> may resolve without a value.
\<close>

record env =
  date_now :: int
  firstOfNextMonth :: int
  new_quota_id :: nat
  new_transaction_id :: nat
  wallet_address :: string
  setUpKeyManager :: "string \<Rightarrow> error + string"
  getSignerAddress :: "string \<Rightarrow> string \<Rightarrow> string \<Rightarrow> string \<Rightarrow> error + string"
  checkSignerPermissions :: "string \<Rightarrow> string \<Rightarrow> error + unit"
  estimateGas :: "string \<Rightarrow> string \<Rightarrow> string \<Rightarrow> string \<Rightarrow> error + int option"
  getWalletNonce :: "store \<Rightarrow> error + nat"
  calcHash :: "string \<Rightarrow> string \<Rightarrow> string \<Rightarrow> string \<Rightarrow> nat \<Rightarrow> error + string option"
  verifyMessage :: "string \<Rightarrow> int \<Rightarrow> string \<Rightarrow> error + string"

section \<open>execute\<close>

text \<open>
  A field of the request body that is missing is \<open>None\<close>. The validation returns the
  four fields it has found present.
\<close>

record execute_request =
  body_address :: "string option"
  transaction_nonce :: "string option"
  transaction_abi :: "string option"
  transaction_signature :: "string option"

definition present :: "string option \<Rightarrow> string \<Rightarrow> error + string" where
  "present field msg =
     (case field of
        None \<Rightarrow> Inl (ArgumentError msg)
      | Some v \<Rightarrow> if v = [] then Inl (ArgumentError msg) else Inr v)"

definition validateExecuteParams ::
  "string option \<Rightarrow> string option \<Rightarrow> string option \<Rightarrow> string option \<Rightarrow>
   error + (string \<times> string \<times> string \<times> string)" where
  "validateExecuteParams addr nonce' abi' sig =
     (case present addr ''address must be present'' of
        Inl e \<Rightarrow> Inl e
      | Inr a \<Rightarrow>
     (case present nonce' ''nonce must be present'' of
        Inl e \<Rightarrow> Inl e
      | Inr n \<Rightarrow>
     (case present abi' ''abi must be present'' of
        Inl e \<Rightarrow> Inl e
      | Inr b \<Rightarrow>
     (case present sig ''signature must be present'' of
        Inl e \<Rightarrow> Inl e
      | Inr s \<Rightarrow> Inr (a, n, b, s)))))"

text \<open>The body of the \<open>try\<close> block: the hash and the job handed to the queue.\<close>

definition execute_try ::
  "env \<Rightarrow> store \<Rightarrow> execute_request \<Rightarrow> (error + (string option \<times> string \<times> nat)) \<times> store" where
  "execute_try ev db req =
     (case validateExecuteParams (body_address req) (transaction_nonce req)
             (transaction_abi req) (transaction_signature req) of
        Inl e \<Rightarrow> (Inl e, db)
      | Inr (addr, nonce', abi', signature') \<Rightarrow>
     (case setUpKeyManager ev addr of
        Inl e \<Rightarrow> (Inl e, db)
      | Inr kmAddress \<Rightarrow>
     (case getSignerAddress ev kmAddress nonce' abi' signature' of
        Inl e \<Rightarrow> (Inl e, db)
      | Inr signerAddress \<Rightarrow>
     (case checkSignerPermissions ev addr signerAddress of
        Inl e \<Rightarrow> (Inl e, db)
      | Inr _ \<Rightarrow>
     (case estimateGas ev kmAddress signature' nonce' abi' of
        Inl e \<Rightarrow> (Inl e, db)
      | Inr None \<Rightarrow> (Inl (Thrown ''could not estimate gas''), db)
      | Inr (Some estimatedGas) \<Rightarrow>
          if estimatedGas = 0 then (Inl (Thrown ''could not estimate gas''), db)
          else
     (case ensureRemainingQuota (new_quota_id ev) (date_now ev) db estimatedGas addr of
        (Inl e, db1) \<Rightarrow> (Inl e, db1)
      | (Inr quota, db1) \<Rightarrow>
     (case extractChannelId nonce' of
        Inl e \<Rightarrow> (Inl e, db1)
      | Inr channelId \<Rightarrow>
     (case getWalletNonce ev db1 of
        Inl e \<Rightarrow> (Inl e, db1)
      | Inr walletNonce' \<Rightarrow>
     (case calcHash ev kmAddress signature' nonce' abi' walletNonce' of
        Inl e \<Rightarrow> (Inl e, db1)
      | Inr hash' \<Rightarrow>
     (case createTransaction (new_transaction_id ev) (wallet_address ev) db1 estimatedGas
             quota addr nonce' signature' abi' channelId signerAddress walletNonce' hash' of
        (Inl e, db2) \<Rightarrow> (Inl e, db2)
      | (Inr transaction, db2) \<Rightarrow>
          (Inr (hash', kmAddress, transaction_id transaction), db2)))))))))))"

text \<open>
  The \<open>catch\<close> block: the message passed to \<open>next\<close>. The result of the handler is
  the response (\<open>Inl\<close> the message, \<open>Inr\<close> the transaction hash), the store, and the
  jobs added to the queue.
\<close>

definition execute_message :: "error \<Rightarrow> string" where
  "execute_message e =
     (case e of ArgumentError m \<Rightarrow> m | NoGasError m \<Rightarrow> m | _ \<Rightarrow> ''Failed to execute'')"

definition execute ::
  "env \<Rightarrow> store \<Rightarrow> execute_request \<Rightarrow> (string + string option) \<times> store \<times> (string \<times> nat) list" where
  "execute ev db req =
     (case execute_try ev db req of
        (Inl e, db') \<Rightarrow> (Inl (execute_message e), db', [])
      | (Inr (hash', job), db') \<Rightarrow> (Inr hash', db', [job]))"

section \<open>quota\<close>

record quota_request =
  quota_address :: "string option"
  quota_timestamp :: "int option"
  quota_signature :: "string option"

record quota_response =
  response_quota :: int
  response_unit :: string
  response_totalQuota :: int
  response_resetDate :: int

definition validateQuotaParams ::
  "string option \<Rightarrow> int option \<Rightarrow> string option \<Rightarrow> error + (string \<times> int \<times> string)" where
  "validateQuotaParams addr timestamp sig =
     (case present addr ''address must be present'' of
        Inl e \<Rightarrow> Inl e
      | Inr a \<Rightarrow>
     (case timestamp of
        None \<Rightarrow> Inl (ArgumentError ''timestamp must be present'')
      | Some t \<Rightarrow>
          if t = 0 then Inl (ArgumentError ''timestamp must be present'')
          else
     (case present sig ''signature must be present'' of
        Inl e \<Rightarrow> Inl e
      | Inr s \<Rightarrow> Inr (a, t, s))))"

text \<open>
  The task of the handler: the profile's own row (\<open>quota_task_own\<close>, which
  creates it when missing), the rows approved for the profile, and the rows of their
  approvers. \<open>parentQuotas\<close> is left
  unset when there is no approved row; it is the empty list here, and is not read then.
\<close>

definition quota_task_own :: "env \<Rightarrow> store \<Rightarrow> string \<Rightarrow> (error + quota) \<times> store" where
  "quota_task_own ev db addr =
     (case oneOrNone (select_quotas db addr) of
        Inl e \<Rightarrow> (Inl e, db)
      | Inr (Some q) \<Rightarrow> (Inr q, db)
      | Inr None \<Rightarrow>
          (case oneOrNone (select_universal_profiles db addr) of
             Inl e \<Rightarrow> (Inl e, db)
           | Inr up \<Rightarrow>
               let db1 = (if up = None
                          then db\<lparr>universal_profiles := universal_profiles db @
                                     [\<lparr>address = addr, created_at = date_now ev\<rparr>]\<rparr>
                          else db);
                   q = \<lparr>quota_id = new_quota_id ev, universal_profile_address = addr,
                        monthly_gas = 650000, gas_used = 0\<rparr>
               in (Inr q, db1\<lparr>quotas := quotas db1 @ [q]\<rparr>)))"

definition quota_task ::
  "env \<Rightarrow> store \<Rightarrow> string \<Rightarrow> (error + (quota \<times> approved_quota list \<times> quota list)) \<times> store" where
  "quota_task ev db addr =
     (case quota_task_own ev db addr of
        (Inl e, db') \<Rightarrow> (Inl e, db')
      | (Inr transactionQuota, db') \<Rightarrow>
          let approvedQuotas = select_approved_quotas db' addr;
              parentQuotas =
                (if length approvedQuotas > 0
                 then filter (\<lambda>q. universal_profile_address q \<in>
                                     set (map approver_address approvedQuotas)) (quotas db')
                 else [])
          in (Inr (transactionQuota, approvedQuotas, parentQuotas), db'))"

text \<open>The callback of \<open>approvedQuotas.forEach\<close>, on the two running totals.\<close>

definition forEach_aQuota :: "quota list \<Rightarrow> int \<times> int \<Rightarrow> approved_quota \<Rightarrow> int \<times> int" where
  "forEach_aQuota parentQuotas acc aQuota =
     (case acc of (totalQuota, gasUsed) \<Rightarrow>
        (case find (\<lambda>pQuota. universal_profile_address pQuota = approver_address aQuota)
                parentQuotas of
           None \<Rightarrow> (totalQuota, gasUsed)
         | Some parentQuota \<Rightarrow>
             if gas_used parentQuota \<ge> monthly_gas parentQuota then (totalQuota, gasUsed)
             else
               let parentGasRemaining = monthly_gas parentQuota - gas_used parentQuota;
                   approvedGasRemaining = approved_monthly_gas aQuota - approved_gas_used aQuota
               in ((if parentGasRemaining \<ge> approvedGasRemaining
                    then totalQuota + approved_monthly_gas aQuota
                    else totalQuota + parentGasRemaining),
                   gasUsed + approved_gas_used aQuota)))"

definition quota_totals :: "quota \<Rightarrow> approved_quota list \<Rightarrow> quota list \<Rightarrow> int \<times> int" where
  "quota_totals transactionQuota approvedQuotas parentQuotas =
     foldl (forEach_aQuota parentQuotas)
       (monthly_gas transactionQuota, gas_used transactionQuota) approvedQuotas"

definition quota_try :: "env \<Rightarrow> store \<Rightarrow> quota_request \<Rightarrow> (error + quota_response) \<times> store" where
  "quota_try ev db req =
     (case validateQuotaParams (quota_address req) (quota_timestamp req) (quota_signature req) of
        Inl e \<Rightarrow> (Inl e, db)
      | Inr (addr, timestamp, signature') \<Rightarrow>
          let timeDiff = date_now ev - timestamp in
          if timeDiff > 5000 \<or> timeDiff < - 5000
          then (Inl (ArgumentError ''timestamp must be +/- 5 seconds''), db)
          else
     (case verifyMessage ev addr timestamp signature' of
        Inl e \<Rightarrow> (Inl e, db)
      | Inr signerAddress \<Rightarrow>
     (case checkSignerPermissions ev addr signerAddress of
        Inl e \<Rightarrow> (Inl e, db)
      | Inr _ \<Rightarrow>
     (case quota_task ev db addr of
        (Inl e, db') \<Rightarrow> (Inl e, db')
      | (Inr (transactionQuota, approvedQuotas, parentQuotas), db') \<Rightarrow>
          (case quota_totals transactionQuota approvedQuotas parentQuotas of
             (totalQuota, gasUsed) \<Rightarrow>
               (Inr \<lparr>response_quota = gasUsed, response_unit = ''gas'',
                     response_totalQuota = totalQuota,
                     response_resetDate = firstOfNextMonth ev\<rparr>, db'))))))"

definition quota_message :: "error \<Rightarrow> string" where
  "quota_message e = (case e of ArgumentError m \<Rightarrow> m | _ \<Rightarrow> ''failed to get quota'')"

definition quota_handler ::
  "env \<Rightarrow> store \<Rightarrow> quota_request \<Rightarrow> (string + quota_response) \<times> store" where
  "quota_handler ev db req =
     (case quota_try ev db req of
        (Inl e, db') \<Rightarrow> (Inl (quota_message e), db')
      | (Inr response, db') \<Rightarrow> (Inr response, db'))"

section \<open>Notions used in the statements\<close>

text \<open>A required field of a request is missing when it is absent or the empty string.\<close>

definition missing :: "string option \<Rightarrow> bool" where
  "missing field \<longleftrightarrow> field = None \<or> field = Some []"

text \<open>
  The authorization check of \<open>execute\<close> fails: the parameters are valid and setting up
  the key manager, recovering the signer or the permission check throws.
\<close>

definition auth_rejected :: "env \<Rightarrow> execute_request \<Rightarrow> bool" where
  "auth_rejected ev req \<longleftrightarrow>
     (case validateExecuteParams (body_address req) (transaction_nonce req)
             (transaction_abi req) (transaction_signature req) of
        Inl e \<Rightarrow> False
      | Inr (addr, n, b, s) \<Rightarrow>
          (case setUpKeyManager ev addr of
             Inl e \<Rightarrow> True
           | Inr km \<Rightarrow>
               (case getSignerAddress ev km n b s of
                  Inl e \<Rightarrow> True
                | Inr signer \<Rightarrow> isl (checkSignerPermissions ev addr signer))))"


text \<open>
  The store after the two updates of \<open>createTransaction\<close>: the rows of \<open>quotas\<close>
  with the id of \<open>quota\<close> and the approved rows granted to \<open>addr\<close> by the profile
  of \<open>quota\<close> have \<open>estimatedGas\<close> added to their use.
\<close>

definition debited :: "store \<Rightarrow> int \<Rightarrow> quota \<Rightarrow> string \<Rightarrow> store" where
  "debited db estimatedGas quota addr =
     db\<lparr>quotas := map (\<lambda>q. if quota_id q = quota_id quota
                             then q\<lparr>gas_used := gas_used q + estimatedGas\<rparr> else q) (quotas db),
        approved_quotas :=
          map (\<lambda>r. if approved_hit addr (universal_profile_address quota) r
                    then approved_bump estimatedGas r else r) (approved_quotas db)\<rparr>"

text \<open>
  The values that \<open>createTransaction\<close> inserts, \<open>ref\<close> being the id of the approved
  row that its second update returned.
\<close>

definition transaction_values ::
  "nat \<Rightarrow> string \<Rightarrow> int \<Rightarrow> string \<Rightarrow> string \<Rightarrow> string \<Rightarrow> string \<Rightarrow> int \<Rightarrow> string \<Rightarrow>
   nat \<Rightarrow> string option \<Rightarrow> nat option \<Rightarrow> transaction_row" where
  "transaction_values new_id wallet_addr estimatedGas addr n sig ab channelId signerAddress
       wn h ref =
     \<lparr>transaction_id = new_id, tx_universal_profile_address = addr, nonce = n,
      signature = sig, abi = ab, channel_id = channelId, status = ''PENDING'',
      signer_address = signerAddress, relayer_nonce = decimal wn,
      relayer_address = wallet_addr, estimated_gas = estimatedGas, tx_gas_used = 0,
      hash = h, approved_quota_ref = ref\<rparr>"


text \<open>
  What the status report counts for an approved row \<open>r\<close>, given the quota rows
  \<open>qs\<close>. The approver's row is the first row of the approver's profile. The row
  \<open>r\<close> is counted when the approver has a row with gas left; its share of the total
  is the whole approved allowance when the approver's remaining gas covers what is left
  of the approval, and the approver's remaining gas otherwise.
\<close>

definition approver_row :: "quota list \<Rightarrow> approved_quota \<Rightarrow> quota option" where
  "approver_row qs r = find (\<lambda>q. universal_profile_address q = approver_address r) qs"

definition counted :: "quota list \<Rightarrow> approved_quota \<Rightarrow> bool" where
  "counted qs r \<longleftrightarrow>
     (case approver_row qs r of None \<Rightarrow> False | Some p \<Rightarrow> gas_used p < monthly_gas p)"

definition share :: "quota list \<Rightarrow> approved_quota \<Rightarrow> int" where
  "share qs r =
     (case approver_row qs r of
        None \<Rightarrow> 0
      | Some p \<Rightarrow>
          if monthly_gas p - gas_used p \<ge> approved_monthly_gas r - approved_gas_used r
          then approved_monthly_gas r
          else monthly_gas p - gas_used p)"

text \<open>
  The report as the specification words it: the total adds, for every approved row, the
  lesser of its allowance and the approver's headroom (nothing for an approver without
  a row, of which the specification does not speak); the use adds the use of every
  approved row.
\<close>

definition claimed_total :: "quota list \<Rightarrow> quota \<Rightarrow> approved_quota list \<Rightarrow> int" where
  "claimed_total qs own rs =
     monthly_gas own +
     sum_list (map (\<lambda>r. case approver_row qs r of
                           None \<Rightarrow> 0
                         | Some p \<Rightarrow> min (approved_monthly_gas r) (monthly_gas p - gas_used p)) rs)"

definition claimed_used :: "quota \<Rightarrow> approved_quota list \<Rightarrow> int" where
  "claimed_used own rs = gas_used own + sum_list (map approved_gas_used rs)"

section \<open>Example stores, collaborators and requests\<close>

text \<open>
  Collaborators that accept every request: the signature recovers to the signer
  \<open>0xS\<close>, which has the permission; the gas estimate is a parameter.
\<close>

definition ev_accept :: "int \<Rightarrow> env" where
  "ev_accept gas =
     \<lparr>date_now = 10000, firstOfNextMonth = 0, new_quota_id = 7, new_transaction_id = 1,
      wallet_address = ''0xW'',
      setUpKeyManager = (\<lambda>a. Inr ''0xKM''),
      getSignerAddress = (\<lambda>km n b s. Inr ''0xS''),
      checkSignerPermissions = (\<lambda>a s. Inr ()),
      estimateGas = (\<lambda>km s n b. Inr (Some gas)),
      getWalletNonce = (\<lambda>db. Inr 9),
      calcHash = (\<lambda>km s n b w. Inr (Some ''0xH'')),
      verifyMessage = (\<lambda>a t s. Inr ''0xS'')\<rparr>"

text \<open>The same collaborators, with a permission check that refuses every signer.\<close>

definition ev_refuse :: env where
  "ev_refuse = (ev_accept 21000)\<lparr>checkSignerPermissions := (\<lambda>a s. Inl (Thrown ''no permission''))\<rparr>"

definition empty_store :: store where
  "empty_store = \<lparr>universal_profiles = [], quotas = [], approved_quotas = [], transactions = []\<rparr>"

definition request_A :: execute_request where
  "request_A =
     \<lparr>body_address = Some ''0xA'',
      transaction_nonce = Some ''0x0000000000000000000000000000000200000000000000000000000000000001'',
      transaction_abi = Some ''0xabcd'',
      transaction_signature = Some ''0x5167''\<rparr>"


text \<open>
  Profile \<open>0xA\<close> has used up its own allowance. Two rows are approved for it: the
  first cannot cover 5 gas itself, the second can, and its approver \<open>0xB\<close> has no
  quota row.
\<close>

definition store_missing_approver :: store where
  "store_missing_approver =
     \<lparr>universal_profiles =
        [\<lparr>address = ''0xA'', created_at = 0\<rparr>, \<lparr>address = ''0xB'', created_at = 0\<rparr>,
         \<lparr>address = ''0xC'', created_at = 0\<rparr>],
      quotas =
        [\<lparr>quota_id = 1, universal_profile_address = ''0xA'', monthly_gas = 100, gas_used = 100\<rparr>,
         \<lparr>quota_id = 2, universal_profile_address = ''0xC'', monthly_gas = 100, gas_used = 0\<rparr>],
      approved_quotas =
        [\<lparr>approved_quota_id = 1, approver_address = ''0xC'', approved_address = ''0xA'',
          approved_monthly_gas = 50, approved_gas_used = 50\<rparr>,
         \<lparr>approved_quota_id = 2, approver_address = ''0xB'', approved_address = ''0xA'',
          approved_monthly_gas = 50, approved_gas_used = 10\<rparr>],
      transactions = []\<rparr>"

text \<open>
  Profile \<open>0xA\<close> has used its allowance of 100; \<open>0xB\<close>, with 10 of 200 left, has
  approved 50 for \<open>0xA\<close>, of which 10 are used.
\<close>

definition store_delegated :: store where
  "store_delegated =
     \<lparr>universal_profiles =
        [\<lparr>address = ''0xA'', created_at = 0\<rparr>, \<lparr>address = ''0xB'', created_at = 0\<rparr>],
      quotas =
        [\<lparr>quota_id = 1, universal_profile_address = ''0xA'', monthly_gas = 100, gas_used = 100\<rparr>,
         \<lparr>quota_id = 2, universal_profile_address = ''0xB'', monthly_gas = 200, gas_used = 190\<rparr>],
      approved_quotas =
        [\<lparr>approved_quota_id = 1, approver_address = ''0xB'', approved_address = ''0xA'',
          approved_monthly_gas = 50, approved_gas_used = 10\<rparr>],
      transactions = []\<rparr>"

text \<open>The transaction created for \<open>0xA\<close> on \<open>store_delegated\<close>, paid by the row of \<open>0xB\<close>.\<close>

definition created_delegated :: "(error + transaction_row) \<times> store" where
  "created_delegated =
     createTransaction 1 ''0xW'' store_delegated 5 (quotas store_delegated ! 1) ''0xA''
       ''0x01'' ''0x5167'' ''0xabcd'' 0 ''0xS'' 9 (Some ''0xH'')"

text \<open>
  Profile \<open>0xA\<close> has two approved rows: one of 100 with 50 used, from \<open>0xB\<close> who has
  60 left, and one of 100 with 40 used, from \<open>0xC\<close> who has nothing left.
\<close>

definition store_status :: store where
  "store_status =
     \<lparr>universal_profiles =
        [\<lparr>address = ''0xA'', created_at = 0\<rparr>, \<lparr>address = ''0xB'', created_at = 0\<rparr>,
         \<lparr>address = ''0xC'', created_at = 0\<rparr>],
      quotas =
        [\<lparr>quota_id = 1, universal_profile_address = ''0xA'', monthly_gas = 1000, gas_used = 0\<rparr>,
         \<lparr>quota_id = 2, universal_profile_address = ''0xB'', monthly_gas = 1000, gas_used = 940\<rparr>,
         \<lparr>quota_id = 3, universal_profile_address = ''0xC'', monthly_gas = 500, gas_used = 500\<rparr>],
      approved_quotas =
        [\<lparr>approved_quota_id = 1, approver_address = ''0xB'', approved_address = ''0xA'',
          approved_monthly_gas = 100, approved_gas_used = 50\<rparr>,
         \<lparr>approved_quota_id = 2, approver_address = ''0xC'', approved_address = ''0xA'',
          approved_monthly_gas = 100, approved_gas_used = 40\<rparr>],
      transactions = []\<rparr>"

text \<open>A quota request signed one second before the clock of \<open>ev_accept\<close>.\<close>

definition fresh_request :: quota_request where
  "fresh_request =
     \<lparr>quota_address = Some ''0xA'', quota_timestamp = Some 9000, quota_signature = Some ''0x5167''\<rparr>"

text \<open>
  The ledger after the relayer \<open>0xW\<close> has sent two transactions, with relayer nonces 9
  and 10, that are both still pending.
\<close>

definition pending_row :: "nat \<Rightarrow> nat \<Rightarrow> transaction_row" where
  "pending_row i relayerNonce =
     \<lparr>transaction_id = i, tx_universal_profile_address = ''0xA'', nonce = decimal i,
      signature = ''0x5167'', abi = ''0xabcd'', channel_id = 0, status = ''PENDING'',
      signer_address = ''0xS'', relayer_nonce = decimal relayerNonce, relayer_address = ''0xW'',
      estimated_gas = 21000, tx_gas_used = 0, hash = Some ''0xH'', approved_quota_ref = None\<rparr>"

definition store_pending :: store where
  "store_pending =
     \<lparr>universal_profiles = [\<lparr>address = ''0xA'', created_at = 0\<rparr>],
      quotas = [\<lparr>quota_id = 1, universal_profile_address = ''0xA'',
                 monthly_gas = 650000, gas_used = 42000\<rparr>],
      approved_quotas = [],
      transactions = [pending_row 1 9, pending_row 2 10]\<rparr>"

text \<open>The quota row created for a profile seen for the first time.\<close>

definition new_quota_A :: quota where
  "new_quota_A =
     \<lparr>quota_id = 7, universal_profile_address = ''0xA'', monthly_gas = 650000, gas_used = 0\<rparr>"


section \<open>The delegation scan\<close>

lemma approvedQuotas_loop_missing_approver:
  assumes pre: "\<forall>a \<in> set pre.
            approved_gas_used a + estimatedGas \<ge> approved_monthly_gas a \<or>
            (\<exists>q. select_quotas db (approver_address a) = [q] \<and>
                 gas_used q + estimatedGas > monthly_gas q)"
    and d: "approved_gas_used d + estimatedGas < approved_monthly_gas d"
    and none: "select_quotas db (approver_address d) = []"
  shows "approvedQuotas_loop db estimatedGas (pre @ d # post) quota = Inl TypeError"
  using pre
proof (induction pre arbitrary: quota)
  case Nil
  from d none show ?case by simp
next
  case (Cons a pre)
  then show ?case by auto
qed

text \<open>
  C10. The profile's own row lacks headroom, and the scan reaches an approved row \<open>d\<close>
  that can cover the call itself (every row before it is skipped, or has an approver
  whose row lacks headroom) while the approver of \<open>d\<close> has no quota row. Then
  \<open>ensureRemainingQuota\<close> fails with the \<open>TypeError\<close> of reading the missing row,
  not with \<open>NoGasError\<close>, and the store is unchanged: no row is created for the
  approver.
\<close>

theorem ensureRemainingQuota_missing_approver:
  assumes own: "select_quotas db addr = [own]"
    and short: "gas_used own + estimatedGas > monthly_gas own"
    and rows: "select_approved_quotas db addr = pre @ d # post"
    and pre: "\<forall>a \<in> set pre.
            approved_gas_used a + estimatedGas \<ge> approved_monthly_gas a \<or>
            (\<exists>q. select_quotas db (approver_address a) = [q] \<and>
                 gas_used q + estimatedGas > monthly_gas q)"
    and d: "approved_gas_used d + estimatedGas < approved_monthly_gas d"
    and none: "select_quotas db (approver_address d) = []"
  shows "ensureRemainingQuota new_id now db estimatedGas addr = (Inl TypeError, db)"
proof -
  have "approvedQuotas_loop db estimatedGas (pre @ d # post) own = Inl TypeError"
    using pre d none by (rule approvedQuotas_loop_missing_approver)
  with own short rows show ?thesis
    by (simp add: ensureRemainingQuota_def)
qed

theorem ensureRemainingQuota_missing_approver_witness:
  "select_quotas store_missing_approver ''0xB'' = [] \<and>
   ensureRemainingQuota 7 0 store_missing_approver 5 ''0xA'' = (Inl TypeError, store_missing_approver)"
  using ensureRemainingQuota_missing_approver
    [where db = store_missing_approver and addr = "''0xA''" and estimatedGas = 5
       and own = "quotas store_missing_approver ! 0"
       and pre = "[approved_quotas store_missing_approver ! 0]"
       and d = "approved_quotas store_missing_approver ! 1" and post = "[]"
       and new_id = 7 and now = 0]
  by (simp add: store_missing_approver_def select_quotas_def select_approved_quotas_def)

section \<open>Rejected requests leave the store alone\<close>

lemma validate_missing:
  assumes "missing a \<or> missing n \<or> missing b \<or> missing s"
  shows "\<exists>m. validateExecuteParams a n b s = Inl (ArgumentError m)"
  using assms
  by (auto simp: validateExecuteParams_def present_def missing_def split: option.splits sum.splits)

lemma execute_try_auth_rejected:
  assumes "auth_rejected ev req"
  shows "\<exists>e. execute_try ev db req = (Inl e, db)"
proof -
  from assms obtain addr n b s where
    v: "validateExecuteParams (body_address req) (transaction_nonce req)
          (transaction_abi req) (transaction_signature req) = Inr (addr, n, b, s)"
    and r: "case setUpKeyManager ev addr of
           Inl e \<Rightarrow> True
         | Inr km \<Rightarrow>
             (case getSignerAddress ev km n b s of
                Inl e \<Rightarrow> True
              | Inr signer \<Rightarrow> isl (checkSignerPermissions ev addr signer))"
    unfolding auth_rejected_def by (auto split: sum.splits)
  show ?thesis
  proof (cases "setUpKeyManager ev addr")
    case (Inl e)
    with v show ?thesis by (simp add: execute_try_def)
  next
    case km: (Inr km)
    show ?thesis
    proof (cases "getSignerAddress ev km n b s")
      case (Inl e)
      with v km show ?thesis by (simp add: execute_try_def)
    next
      case sg: (Inr signer)
      with r km obtain e where "checkSignerPermissions ev addr signer = Inl e"
        by (auto simp: isl_def)
      with v km sg show ?thesis by (simp add: execute_try_def)
    qed
  qed
qed

text \<open>
  C8. An \<open>execute\<close> request with a missing or empty address, nonce, abi or signature,
  or one whose authorization check fails, is answered with an error message; the store
  is the one before the request and no job is queued. For a missing or empty field the
  message is that of the \<open>ArgumentError\<close> thrown by the validation.
\<close>

theorem execute_rejected_no_mutation:
  assumes "missing (body_address req) \<or> missing (transaction_nonce req) \<or>
           missing (transaction_abi req) \<or> missing (transaction_signature req) \<or>
           auth_rejected ev req"
  shows "(\<exists>m. execute ev db req = (Inl m, db, [])) \<and>
         (\<not> auth_rejected ev req \<longrightarrow>
            (\<exists>m. validateExecuteParams (body_address req) (transaction_nonce req)
                    (transaction_abi req) (transaction_signature req) = Inl (ArgumentError m) \<and>
                  execute ev db req = (Inl m, db, [])))"
proof (cases "auth_rejected ev req")
  case True
  then have "\<exists>e. execute_try ev db req = (Inl e, db)"
    by (rule execute_try_auth_rejected)
  with True show ?thesis by (auto simp: execute_def)
next
  case False
  with assms obtain m where
    "validateExecuteParams (body_address req) (transaction_nonce req)
        (transaction_abi req) (transaction_signature req) = Inl (ArgumentError m)"
    using validate_missing [of "body_address req" "transaction_nonce req"
        "transaction_abi req" "transaction_signature req"]
    by auto
  then show ?thesis by (simp add: execute_def execute_try_def execute_message_def)
qed

theorem execute_rejected_no_mutation_witness:
  "auth_rejected ev_refuse request_A \<and>
   (\<exists>m. execute ev_refuse store_delegated request_A = (Inl m, store_delegated, [])) \<and>
   missing (transaction_signature (request_A\<lparr>transaction_signature := Some []\<rparr>)) \<and>
   execute (ev_accept 21000) store_delegated (request_A\<lparr>transaction_signature := Some []\<rparr>) =
     (Inl ''signature must be present'', store_delegated, [])"
proof -
  have h: "auth_rejected ev_refuse request_A"
    by (simp add: auth_rejected_def ev_refuse_def ev_accept_def request_A_def
        validateExecuteParams_def present_def)
  let ?r = "request_A\<lparr>transaction_signature := Some []\<rparr>"
  have m: "missing (transaction_signature ?r)"
    by (simp add: missing_def)
  have v: "validateExecuteParams (body_address ?r) (transaction_nonce ?r)
             (transaction_abi ?r) (transaction_signature ?r) =
           Inl (ArgumentError ''signature must be present'')"
    by (simp add: request_A_def validateExecuteParams_def present_def)
  then have n: "\<not> auth_rejected (ev_accept 21000) ?r"
    by (simp add: auth_rejected_def)
  from execute_rejected_no_mutation [of request_A ev_refuse store_delegated] h
  have "\<exists>m. execute ev_refuse store_delegated request_A = (Inl m, store_delegated, [])"
    by simp
  moreover
  from execute_rejected_no_mutation [of ?r "ev_accept 21000" store_delegated] m n v
  have "execute (ev_accept 21000) store_delegated ?r =
          (Inl ''signature must be present'', store_delegated, [])"
    by auto
  ultimately show ?thesis using h m by simp
qed



section \<open>Channel extraction\<close>

text \<open>
  C9. For a nonce that is a 256-bit value, the channel id is the value shifted right by
  128 bits, whenever that fits a JavaScript number (53 bits); a larger channel makes
  \<open>toNumber\<close> throw. For the nonce \<open>(2 << 128) | 1\<close> the channel id is 2.
\<close>

theorem extractChannelId_shift:
  assumes "BigNumber_from nonce' = Inr (BigNumber n)" and "0 \<le> n" and "n < 2 ^ 256"
  shows "extractChannelId nonce' =
           (if uint (drop_bit 128 (word_of_int n :: 256 word)) < 2 ^ 53
            then Inr (uint (drop_bit 128 (word_of_int n :: 256 word)))
            else Inl (EthersError ''overflow''))"
proof -
  have t: "take_bit 256 n = n"
    using assms by (simp add: take_bit_int_eq_self)
  have "uint (drop_bit 128 (word_of_int n :: 256 word)) = drop_bit 128 n"
    by (simp add: unsigned_drop_bit_eq uint_word_of_int_eq t)
  moreover have "0 \<le> drop_bit 128 n" using assms by simp
  ultimately show ?thesis
    using assms by (simp add: extractChannelId_def shr_def toNumber_def)
qed

lemma BigNumber_from_example:
  "BigNumber_from ''0x0000000000000000000000000000000200000000000000000000000000000001''
     = Inr (BigNumber (2 * 2 ^ 128 + 1))"
  by (simp add: BigNumber_from_def unsigned_from_def hex_text_def hex_value_def with_sign_def)

theorem extractChannelId_shift_witness:
  "extractChannelId ''0x0000000000000000000000000000000200000000000000000000000000000001'' = Inr 2"
  using extractChannelId_shift [OF BigNumber_from_example]
  by (simp add: drop_bit_eq_div)

text \<open>
  A nonce written with the prefix \<open>0X\<close> is accepted by \<open>BigNumber.from\<close> but is not a
  number, and \<open>extractChannelId\<close> throws on it.
\<close>

lemma extractChannelId_upper_case_prefix:
  "extractChannelId ''0X0000000000000000000000000000000100000000000000000000000000000000''
     = Inl (EthersError ''Invalid character'')"
  by (simp add: extractChannelId_def BigNumber_from_def unsigned_from_def hex_text_def
      hex_value_def shr_def)

section \<open>createTransaction\<close>

lemma decimal_9_10: "decimal 9 = ''9''" "decimal 10 = ''10''"
  by (simp_all add: decimal.simps)

lemma oneOrNone_Inr_le1: "oneOrNone xs = Inr v \<Longrightarrow> length xs \<le> 1"
  by (cases xs rule: oneOrNone.cases) auto

lemma createTransaction_cases:
  "createTransaction new_id w db g quota addr n sig ab c sg wn h =
     (case oneOrNone (map (approved_bump g)
              (filter (approved_hit addr (universal_profile_address quota)) (approved_quotas db))) of
        Inl e \<Rightarrow> (Inl e, db)
      | Inr approvedQuota \<Rightarrow>
          (case insert_transaction
                  (transaction_values new_id w g addr n sig ab c sg wn h
                     (map_option approved_quota_id approvedQuota))
                  (debited db g quota addr) of
             (Inl e, t) \<Rightarrow> (Inl e, db)
           | (Inr r, t) \<Rightarrow> (Inr r, t)))"
  by (simp add: createTransaction_def tx_def update_quotas_def update_approved_quotas_def
      debited_def transaction_values_def Let_def split: sum.splits prod.splits)

lemma insert_transaction_Inr:
  assumes "insert_transaction row t = (Inr r, t')"
  shows "column_values row = Some r \<and> t' = t\<lparr>transactions := transactions t @ [r]\<rparr>"
  using assms by (auto simp: insert_transaction_def split: option.splits if_splits)




lemmas created_delegated_simps =
  created_delegated_def createTransaction_cases store_delegated_def approved_hit_def
  approved_bump_def insert_transaction_def column_values_def fits_int_def fits_varchar_def
  transaction_values_def references_hold_def same_authorization_def debited_def decimal_9_10

lemma created_delegated_succeeds: "\<not> isl (fst created_delegated)"
  by (simp add: created_delegated_simps)



text \<open>
  C5, as the code has it. A successful \<open>createTransaction\<close> adds \<open>estimatedGas\<close> to
  the use of every quota row with the id of the payer's row, and to the use of the
  approved row granted to the profile by the payer's profile, of which there is at most
  one; every other row of the two tables is unchanged.
\<close>

theorem createTransaction_debits:
  assumes "createTransaction new_id w db g quota addr n sig ab c sg wn h = (Inr row, db')"
  shows "length (quotas db') = length (quotas db) \<and>
         (\<forall>i < length (quotas db).
            quotas db' ! i =
              (if quota_id (quotas db ! i) = quota_id quota
               then (quotas db ! i)\<lparr>gas_used := gas_used (quotas db ! i) + g\<rparr>
               else quotas db ! i)) \<and>
         length (approved_quotas db') = length (approved_quotas db) \<and>
         (\<forall>i < length (approved_quotas db).
            approved_quotas db' ! i =
              (if approved_address (approved_quotas db ! i) = addr \<and>
                  approver_address (approved_quotas db ! i) = universal_profile_address quota
               then (approved_quotas db ! i)
                      \<lparr>approved_gas_used := approved_gas_used (approved_quotas db ! i) + g\<rparr>
               else approved_quotas db ! i)) \<and>
         length (filter (\<lambda>r. approved_address r = addr \<and>
                              approver_address r = universal_profile_address quota)
                   (approved_quotas db)) \<le> 1"
proof -
  let ?hits = "filter (approved_hit addr (universal_profile_address quota)) (approved_quotas db)"
  from assms obtain aq :: "approved_quota option" where one: "oneOrNone (map (approved_bump g) ?hits) = Inr aq"
    and ins: "insert_transaction
            (transaction_values new_id w g addr n sig ab c sg wn h (map_option approved_quota_id aq))
            (debited db g quota addr) = (Inr row, db')"
    by (auto simp: createTransaction_cases split: sum.splits prod.splits)
  from one have le: "length ?hits \<le> 1"
    using oneOrNone_Inr_le1 by fastforce
  from insert_transaction_Inr [OF ins] have
    db': "db' = (debited db g quota addr)\<lparr>transactions := transactions (debited db g quota addr) @ [row]\<rparr>"
    by simp
  have hit: "approved_hit addr (universal_profile_address quota) =
          (\<lambda>r. approved_address r = addr \<and> approver_address r = universal_profile_address quota)"
    by (auto simp: approved_hit_def fun_eq_iff)
  show ?thesis
    using le by (subst (1 2 3 4) db') (simp add: debited_def hit approved_bump_def)
qed

theorem createTransaction_debits_witness:
  "length (quotas (snd created_delegated)) = 2 \<and>
   quotas (snd created_delegated) ! 1 = (quotas store_delegated ! 1)\<lparr>gas_used := 195\<rparr> \<and>
   quotas (snd created_delegated) ! 0 = quotas store_delegated ! 0"
proof -
  obtain row where "fst created_delegated = Inr row"
    using created_delegated_succeeds by (cases "fst created_delegated") auto
  then have "createTransaction 1 ''0xW'' store_delegated 5 (quotas store_delegated ! 1) ''0xA''
       ''0x01'' ''0x5167'' ''0xabcd'' 0 ''0xS'' 9 (Some ''0xH'') = (Inr row, snd created_delegated)"
    by (simp add: created_delegated_def prod_eq_iff)
  from createTransaction_debits [OF this] show ?thesis
    by (simp add: store_delegated_def)
qed

text \<open>
  C5 as stated fails: when the resolver returns the row of an approver, the approver's
  quota row and the approved row are both debited.
\<close>

theorem createTransaction_two_rows_counterexample:
  "fst (ensureRemainingQuota 7 0 store_delegated 5 ''0xA'') = Inr (quotas store_delegated ! 1) \<and>
   \<not> isl (fst created_delegated) \<and>
   map gas_used (quotas store_delegated) = [100, 190] \<and>
   map gas_used (quotas (snd created_delegated)) = [100, 195] \<and>
   map approved_gas_used (approved_quotas store_delegated) = [10] \<and>
   map approved_gas_used (approved_quotas (snd created_delegated)) = [15]"
  by (simp add: created_delegated_simps
      ensureRemainingQuota_def select_quotas_def select_approved_quotas_def)

section \<open>The quota status\<close>

lemma forEach_aQuota_step:
  "forEach_aQuota ps (t, u) r =
     (if counted ps r then (t + share ps r, u + approved_gas_used r) else (t, u))"
  by (cases "approver_row ps r")
     (auto simp: forEach_aQuota_def counted_def share_def approver_row_def Let_def)

lemma foldl_forEach_aQuota:
  "foldl (forEach_aQuota ps) (t, u) rs =
     (t + sum_list (map (share ps) (filter (counted ps) rs)),
      u + sum_list (map approved_gas_used (filter (counted ps) rs)))"
  by (induction rs arbitrary: t u) (simp_all add: forEach_aQuota_step)

lemma find_filter_implied:
  assumes "\<And>x. P x \<Longrightarrow> Q x"
  shows "find P (filter Q xs) = find P xs"
  using assms by (induction xs) auto

lemma approver_row_parents:
  assumes "r \<in> set rs"
  shows "approver_row
           (if length rs > 0
            then filter (\<lambda>q. universal_profile_address q \<in> set (map approver_address rs)) qs
            else []) r
         = approver_row qs r"
proof -
  from assms have "length rs > 0" by auto
  moreover have "find (\<lambda>q. universal_profile_address q = approver_address r)
          (filter (\<lambda>q. universal_profile_address q \<in> set (map approver_address rs)) qs)
        = find (\<lambda>q. universal_profile_address q = approver_address r) qs"
    using assms by (intro find_filter_implied) auto
  ultimately show ?thesis
    unfolding approver_row_def by (simp del: set_map)
qed

lemma quota_totals_parents:
  assumes "\<And>r. r \<in> set rs \<Longrightarrow> approver_row ps r = approver_row qs r"
  shows "quota_totals own rs ps
   = (monthly_gas own + sum_list (map (share qs) (filter (counted qs) rs)),
      gas_used own + sum_list (map approved_gas_used (filter (counted qs) rs)))"
proof -
  have c: "filter (counted ps) rs = filter (counted qs) rs"
    by (rule filter_cong) (simp_all add: counted_def assms)
  have s: "map (share ps) (filter (counted qs) rs) = map (share qs) (filter (counted qs) rs)"
    by (rule map_cong) (simp_all add: share_def assms)
  show ?thesis
    by (simp add: quota_totals_def foldl_forEach_aQuota c s)
qed

lemma quota_task_own_result:
  assumes "quota_task_own ev db addr = (Inr own, db')"
  shows "select_quotas db' addr = [own]"
proof (cases "select_quotas db addr" rule: oneOrNone.cases)
  case 1
  with assms show ?thesis
    by (auto simp: quota_task_own_def Let_def select_quotas_def split: sum.splits if_splits)
next
  case (2 r)
  with assms show ?thesis
    by (auto simp: quota_task_own_def)
next
  case (3 r r' rs)
  with assms show ?thesis
    by (auto simp: quota_task_own_def)
qed

lemma quota_task_result:
  assumes "quota_task ev db addr = (Inr (own, rs, ps), db')"
  shows "select_quotas db' addr = [own] \<and> rs = select_approved_quotas db' addr \<and>
         (\<forall>r \<in> set rs. approver_row ps r = approver_row (quotas db') r)"
proof -
  from assms have own: "quota_task_own ev db addr = (Inr own, db')"
    and rs: "rs = select_approved_quotas db' addr"
    and ps: "ps = (if length rs > 0
                   then filter (\<lambda>q. universal_profile_address q \<in> set (map approver_address rs))
                          (quotas db')
                   else [])"
    by (auto simp: quota_task_def Let_def simp del: set_map length_greater_0_conv
        split: sum.splits prod.splits)
  from own have "select_quotas db' addr = [own]" by (rule quota_task_own_result)
  moreover have "\<forall>r \<in> set rs. approver_row ps r = approver_row (quotas db') r"
    unfolding ps using approver_row_parents by blast
  ultimately show ?thesis using rs by blast
qed

text \<open>
  C4, as the code has it. A quota status that is answered reports, for the profile's
  own row and the approved rows granted to the profile, both read after the request:
  as total the own allowance plus the share of every counted approved row, and as use
  the own use plus the use of every counted approved row. An approved row whose
  approver has no row, or no gas left, is not counted: it adds to neither figure.
\<close>

theorem quota_report:
  assumes "quota_handler ev db req = (Inr response, db')"
    and "quota_address req = Some addr"
  shows "\<exists>own. select_quotas db' addr = [own] \<and>
           response_totalQuota response =
             monthly_gas own +
             sum_list (map (share (quotas db'))
                        (filter (counted (quotas db')) (select_approved_quotas db' addr))) \<and>
           response_quota response =
             gas_used own +
             sum_list (map approved_gas_used
                        (filter (counted (quotas db')) (select_approved_quotas db' addr)))"
proof -
  from assms obtain own rs ps where
    task: "quota_task ev db addr = (Inr (own, rs, ps), db')"
    and resp: "response_totalQuota response = fst (quota_totals own rs ps)"
              "response_quota response = snd (quota_totals own rs ps)"
    by (auto simp: quota_handler_def quota_try_def validateQuotaParams_def present_def Let_def
        split: sum.splits if_splits prod.splits option.splits)
  from quota_task_result [OF task] have
    own: "select_quotas db' addr = [own]" and rs: "rs = select_approved_quotas db' addr"
    and same: "\<And>r. r \<in> set rs \<Longrightarrow> approver_row ps r = approver_row (quotas db') r"
    by auto
  have "quota_totals own rs ps =
          (monthly_gas own + sum_list (map (share (quotas db')) (filter (counted (quotas db')) rs)),
           gas_used own + sum_list (map approved_gas_used (filter (counted (quotas db')) rs)))"
    using same by (rule quota_totals_parents)
  with resp own rs show ?thesis by simp
qed

lemma quota_handler_store_status:
  "quota_handler (ev_accept 21000) store_status fresh_request =
     (Inr \<lparr>response_quota = 50, response_unit = ''gas'', response_totalQuota = 1100,
           response_resetDate = 0\<rparr>, store_status)"
  by (simp add: quota_handler_def quota_try_def validateQuotaParams_def present_def
      fresh_request_def ev_accept_def quota_task_def quota_task_own_def store_status_def
      select_quotas_def select_approved_quotas_def quota_totals_def forEach_aQuota_def Let_def)

theorem quota_report_witness:
  "\<exists>own. select_quotas store_status ''0xA'' = [own] \<and>
      (1100 :: int) =
        monthly_gas own +
        sum_list (map (share (quotas store_status))
                   (filter (counted (quotas store_status))
                      (select_approved_quotas store_status ''0xA''))) \<and>
      (50 :: int) =
        gas_used own +
        sum_list (map approved_gas_used
                   (filter (counted (quotas store_status))
                      (select_approved_quotas store_status ''0xA'')))"
  using quota_report [OF quota_handler_store_status, of "''0xA''"]
  by (simp add: fresh_request_def)

text \<open>
  C4 as stated fails on \<open>store_status\<close>: the report gives a total of 1100 and a use of
  50, where the lesser of allowance and headroom gives a total of 1060, and the use of
  all approved rows gives 90.
\<close>

theorem quota_report_counterexample:
  "fst (quota_handler (ev_accept 21000) store_status fresh_request) =
     Inr \<lparr>response_quota = 50, response_unit = ''gas'', response_totalQuota = 1100,
          response_resetDate = 0\<rparr> \<and>
   claimed_total (quotas store_status) (quotas store_status ! 0)
     (select_approved_quotas store_status ''0xA'') = 1060 \<and>
   claimed_used (quotas store_status ! 0) (select_approved_quotas store_status ''0xA'') = 90"
  by (simp add: quota_handler_def quota_try_def validateQuotaParams_def present_def
      fresh_request_def ev_accept_def quota_task_def quota_task_own_def store_status_def
      select_quotas_def select_approved_quotas_def quota_totals_def forEach_aQuota_def Let_def
      claimed_total_def claimed_used_def approver_row_def)

section \<open>The relayer nonce\<close>

text \<open>
  C3 at a ledger with two pending transactions of the relayer, with nonces 9 and 10:
  the row taken by the descending text order is the one with nonce 9, and the nonce
  computed for the next transaction is 10, not 11.
\<close>

theorem walletNonce_text_order:
  "map (\<lambda>r. Number (relayer_nonce r)) (transactions store_pending) = [Some 9, Some 10] \<and>
   pendingWalletTransaction store_pending ''0xW'' = Some (pending_row 1 9) \<and>
   walletNonce 0 store_pending ''0xW'' = Some 10"
  by (simp add: walletNonce_def pendingWalletTransaction_def store_pending_def pending_row_def
      decimal_9_10 Number_def dec_value_def)

section \<open>The resolver on a profile that has a quota row\<close>

text \<open>
  When the profile's own row exists, the own row pays exactly when it has room; else
  the approved rows are scanned in stored order, rows that cannot cover the call
  themselves are skipped, and the row of the first approver with room is returned;
  when there is no approved row, or none yields a payer, the call is refused with
  \<open>NoGasError\<close>.
\<close>

lemma ensureRemainingQuota_own_pays:
  assumes "select_quotas db addr = [own]"
    and "gas_used own + estimatedGas \<le> monthly_gas own"
  shows "ensureRemainingQuota new_id now db estimatedGas addr = (Inr own, db)"
  using assms by (simp add: ensureRemainingQuota_def)

lemma ensureRemainingQuota_no_approved_row:
  assumes "select_quotas db addr = [own]"
    and "gas_used own + estimatedGas > monthly_gas own"
    and "select_approved_quotas db addr = []"
  shows "ensureRemainingQuota new_id now db estimatedGas addr =
           (Inl (NoGasError ''gas limit reached''), db)"
  using assms by (simp add: ensureRemainingQuota_def)

lemma approvedQuotas_loop_first_payer:
  assumes pre: "\<forall>a \<in> set pre.
            approved_gas_used a + estimatedGas \<ge> approved_monthly_gas a \<or>
            (\<exists>q. select_quotas db (approver_address a) = [q] \<and>
                 gas_used q + estimatedGas > monthly_gas q)"
    and d: "approved_gas_used d + estimatedGas < approved_monthly_gas d"
    and payer: "select_quotas db (approver_address d) = [p]"
    and room: "gas_used p + estimatedGas \<le> monthly_gas p"
  shows "approvedQuotas_loop db estimatedGas (pre @ d # post) quota = Inr p"
  using pre
proof (induction pre arbitrary: quota)
  case Nil
  from d payer room show ?case by simp
next
  case (Cons a pre)
  then show ?case by auto
qed

lemma ensureRemainingQuota_first_payer:
  assumes own: "select_quotas db addr = [own]"
    and short: "gas_used own + estimatedGas > monthly_gas own"
    and rows: "select_approved_quotas db addr = pre @ d # post"
    and pre: "\<forall>a \<in> set pre.
            approved_gas_used a + estimatedGas \<ge> approved_monthly_gas a \<or>
            (\<exists>q. select_quotas db (approver_address a) = [q] \<and>
                 gas_used q + estimatedGas > monthly_gas q)"
    and d: "approved_gas_used d + estimatedGas < approved_monthly_gas d"
    and payer: "select_quotas db (approver_address d) = [p]"
    and room: "gas_used p + estimatedGas \<le> monthly_gas p"
  shows "ensureRemainingQuota new_id now db estimatedGas addr = (Inr p, db)"
proof -
  have "approvedQuotas_loop db estimatedGas (pre @ d # post) own = Inr p"
    using pre d payer room by (rule approvedQuotas_loop_first_payer)
  with own short rows room show ?thesis
    by (simp add: ensureRemainingQuota_def)
qed

lemma approvedQuotas_loop_no_payer:
  assumes "\<forall>a \<in> set rs.
            approved_gas_used a + estimatedGas \<ge> approved_monthly_gas a \<or>
            (\<exists>q. select_quotas db (approver_address a) = [q] \<and>
                 gas_used q + estimatedGas > monthly_gas q)"
    and "gas_used quota + estimatedGas > monthly_gas quota"
  shows "\<exists>q. approvedQuotas_loop db estimatedGas rs quota = Inr q \<and>
             gas_used q + estimatedGas > monthly_gas q"
  using assms
proof (induction rs arbitrary: quota)
  case Nil
  then show ?case by simp
next
  case (Cons a rs)
  then show ?case by auto
qed

lemma ensureRemainingQuota_no_payer:
  assumes own: "select_quotas db addr = [own]"
    and short: "gas_used own + estimatedGas > monthly_gas own"
    and none: "\<forall>a \<in> set (select_approved_quotas db addr).
            approved_gas_used a + estimatedGas \<ge> approved_monthly_gas a \<or>
            (\<exists>q. select_quotas db (approver_address a) = [q] \<and>
                 gas_used q + estimatedGas > monthly_gas q)"
  shows "ensureRemainingQuota new_id now db estimatedGas addr =
           (Inl (NoGasError ''gas limit reached''), db)"
proof -
  from approvedQuotas_loop_no_payer [OF none short] obtain q where
    "approvedQuotas_loop db estimatedGas (select_approved_quotas db addr) own = Inr q"
    "gas_used q + estimatedGas > monthly_gas q"
    by blast
  with own short show ?thesis
    by (simp add: ensureRemainingQuota_def Let_def)
qed

section \<open>A first request above the default allowance\<close>

text \<open>
  C1 at a profile without a quota row and an estimate of 650001: the row is created
  with allowance 650000 and use 0 and returned as payer, although the estimate exceeds
  the allowance. Asked again on the store so obtained, with the same row now present,
  the function refuses the same estimate.
\<close>

theorem ensureRemainingQuota_new_profile:
  "ensureRemainingQuota 7 0 empty_store 650001 ''0xA'' =
     (Inr new_quota_A,
      empty_store\<lparr>universal_profiles := [\<lparr>address = ''0xA'', created_at = 0\<rparr>],
                  quotas := [new_quota_A]\<rparr>) \<and>
   \<not> gas_used new_quota_A + 650001 \<le> monthly_gas new_quota_A \<and>
   fst (ensureRemainingQuota 8 0 (snd (ensureRemainingQuota 7 0 empty_store 650001 ''0xA''))
          650001 ''0xA'') = Inl (NoGasError ''gas limit reached'')"
  by (simp add: ensureRemainingQuota_def empty_store_def new_quota_A_def select_quotas_def
      select_universal_profiles_def select_approved_quotas_def Let_def)

text \<open>
  C6 at one request, with no other request running: \<open>execute\<close> for a profile seen for
  the first time, with a gas estimate of 650001, succeeds and leaves the profile's quota
  row with a use of 650001 against an allowance of 650000.
\<close>

theorem execute_overshoots_allowance:
  "fst (execute (ev_accept 650001) empty_store request_A) = Inr (Some ''0xH'') \<and>
   quotas (fst (snd (execute (ev_accept 650001) empty_store request_A))) =
     [\<lparr>quota_id = 7, universal_profile_address = ''0xA'', monthly_gas = 650000,
       gas_used = 650001\<rparr>]"
proof -
  have c: "extractChannelId
             ''0x0000000000000000000000000000000200000000000000000000000000000001'' = Inr 2"
    by (simp add: extractChannelId_def BigNumber_from_example shr_def toNumber_def drop_bit_eq_div)
  show ?thesis
    by (simp add: execute_def execute_try_def validateExecuteParams_def present_def
        request_A_def ev_accept_def c ensureRemainingQuota_def empty_store_def select_quotas_def
        select_universal_profiles_def createTransaction_cases approved_hit_def
        insert_transaction_def column_values_def fits_int_def fits_varchar_def
        transaction_values_def references_hold_def same_authorization_def decimal_9_10
        debited_def Let_def)
qed

end
